theory Spec2Isabelle
  imports Main
begin

section \<open>Environment selector (ClusterWrap, module body)\<close>

text \<open>
  The module body binds \<open>cluster\<close> to one of three constructor callables. It reads the host
  through \<open>shutil.which\<close> and \<open>os.system\<close> only, so the host is a record of these two
  tables: \<open>which\<close> maps an executable name to its location on the search path (\<open>None\<close> when
  absent) and \<open>system\<close> maps a command line to the raw wait status \<open>os.system\<close> returns.
\<close>

datatype factory = local_cluster | janelia_lsf_cluster | slurm_cluster

record host =
  which :: "string \<rightharpoonup> string"
  system :: "string \<Rightarrow> int"

text \<open>
  \<open>os.WEXITSTATUS\<close> is the POSIX macro \<open>(status & 0xff00) >> 8\<close>: the second byte of the
  wait status.
\<close>

definition WEXITSTATUS :: "int \<Rightarrow> int" where
  "WEXITSTATUS status = (status div 256) mod 256"

text \<open>
  The state of the module body: the current binding of \<open>cluster\<close> and the command lines
  handed to \<open>os.system\<close> so far, oldest first.
\<close>

type_synonym selection = "factory \<times> string list"

text \<open>Lines 8 to 10: the \<open>bsub\<close> block.\<close>

definition bsub_check :: "host \<Rightarrow> selection \<Rightarrow> selection" where
  "bsub_check h sel =
     (case sel of (cl, cmds) \<Rightarrow>
        if which h ''bsub'' \<noteq> None then
          (if system h ''bsub -V'' \<noteq> 32512
           then (janelia_lsf_cluster, cmds @ [''bsub -V''])
           else (cl, cmds @ [''bsub -V'']))
        else (cl, cmds))"

text \<open>Lines 12 to 18: the \<open>srun\<close> block, a second \<open>if\<close> statement after the first.\<close>

definition srun_check :: "host \<Rightarrow> selection \<Rightarrow> selection" where
  "srun_check h sel =
     (case sel of (cl, cmds) \<Rightarrow>
        if which h ''srun'' \<noteq> None then
          (let exit_status = system h ''srun --version'' in
           if WEXITSTATUS exit_status = 0
           then (slurm_cluster, cmds @ [''srun --version''])
           else (cl, cmds @ [''srun --version'']))
        else (cl, cmds))"

text \<open>The whole module body, starting from \<open>cluster = local_cluster\<close> (line 6).\<close>

definition select_cluster :: "host \<Rightarrow> selection" where
  "select_cluster h = srun_check h (bsub_check h (local_cluster, []))"

subsection \<open>Concrete hosts\<close>

text \<open>A host with both schedulers installed, both version commands exiting with status 0.\<close>

definition host_both :: host where
  "host_both =
     \<lparr>which = [''bsub'' \<mapsto> ''/usr/bin/bsub'', ''srun'' \<mapsto> ''/usr/bin/srun''],
      system = (\<lambda>cmd. 0)\<rparr>"

text \<open>
  A host where \<open>bsub\<close> is on the search path and \<open>bsub -V\<close> exits with status 0, and
  \<open>srun\<close> is absent.
\<close>

definition host_lsf :: host where
  "host_lsf = \<lparr>which = [''bsub'' \<mapsto> ''/usr/bin/bsub''], system = (\<lambda>cmd. 0)\<rparr>"

text \<open>
  A host where \<open>bsub\<close> is on the search path and \<open>bsub -V\<close> returns the raw status 32512
  (exit code 127), and \<open>srun\<close> is absent.
\<close>

definition host_lsf_127 :: host where
  "host_lsf_127 = \<lparr>which = [''bsub'' \<mapsto> ''/usr/bin/bsub''], system = (\<lambda>cmd. 32512)\<rparr>"

section \<open>Python values\<close>

text \<open>
  The values that configuration options and keyword arguments carry, and Python's \<open>str\<close>
  on integers (decimal digits, a leading minus sign for negative numbers), which the
  f-strings and \<open>str(15 * ncpus)\<close> of the SLURM constructor use. A \<open>dict\<close> with string
  keys is a map.
\<close>

datatype pyval = PNone | PBool bool | PInt int | PStr string | PList "pyval list"

type_synonym dict = "string \<rightharpoonup> pyval"

type_synonym path = string

definition digit_char :: "nat \<Rightarrow> char" where
  "digit_char d = ''0123456789'' ! d"

function str_nat :: "nat \<Rightarrow> string" where
  "str_nat n =
     (if n < 10 then [digit_char n] else str_nat (n div 10) @ [digit_char (n mod 10)])"
  by pat_completeness auto
termination
  by (relation "measure (\<lambda>n. n)") auto

declare str_nat.simps [simp del]

definition str_int :: "int \<Rightarrow> string" where
  "str_int i = (if i < 0 then CHR ''-'' # str_nat (nat (- i)) else str_nat (nat i))"

section \<open>The world outside the wrapper\<close>

text \<open>
  Exceptions are values. The string names the attribute, key, system call or backend call
  that raised.
\<close>

datatype exn =
    AttributeError string
  | KeyError string
  | TypeError string
  | OSError string
  | BackendError string

text \<open>
  A path of the file system holds a directory or a regular file. The only files the
  wrapper writes are YAML dumps of the configuration dictionary, so a file's content is
  the dictionary that was dumped into it.
\<close>

datatype node = Dir | File dict

text \<open>
  The steps the properties below speak about, in the order the wrapper takes them: the
  removal of a file, the construction of the SLURM pool (with the keyword dictionary the
  constructor receives), the calls on the client and on the pool, and the writes into
  the option template of the pool. A call is logged when it is made, whether or not it
  then raises.
\<close>

datatype event =
    OsRemove path
  | SLURMClusterCall dict
  | ClientClose
  | ClusterExit "exn option"
  | ClusterScale int
  | SetOption string pyval
  | ClusterAdapt int int string int

text \<open>
  The world: the process-wide configuration \<open>dask.config.config\<close>, the file system,
  \<open>Path.home()\<close>, \<open>os.environ\<close>, \<open>os.getcwd()\<close>, \<open>os.getpid()\<close>, and what the operating
  system and the backend answer: whether a path can be opened for writing, removed or
  created as a directory, and whether each call into the backend succeeds. Text printed
  on standard output is not modelled.
\<close>

record world =
  dask_config :: dict
  fs :: "path \<rightharpoonup> node"
  home :: string
  environ :: "string \<rightharpoonup> string"
  cwd :: string
  pid :: int
  can_write :: "path \<Rightarrow> bool"
  can_remove :: "path \<Rightarrow> bool"
  can_mkdir :: "path \<Rightarrow> bool"
  spawn_ok :: bool
  connect_ok :: bool
  scale_ok :: bool
  adapt_ok :: bool
  close_ok :: bool
  teardown_ok :: bool
  trace :: "event list"

text \<open>
  A call returns a value or raises; either way it leaves a state behind. For a method
  the state is the pair of the object and the world, for a constructor it is the world.
\<close>

datatype ('r, 's) outcome = Returns 'r 's | Raises exn 's

definition and_then ::
  "('a, 's) outcome \<Rightarrow> ('a \<Rightarrow> 's \<Rightarrow> ('b, 's) outcome) \<Rightarrow> ('b, 's) outcome" where
  "and_then m f = (case m of Returns r s \<Rightarrow> f r s | Raises e s \<Rightarrow> Raises e s)"

fun final :: "('r, 's) outcome \<Rightarrow> 's" where
  "final (Returns r s) = s"
| "final (Raises e s) = s"

definition log_event :: "event \<Rightarrow> world \<Rightarrow> world" where
  "log_event ev w = w\<lparr>trace := trace w @ [ev]\<rparr>"

subsection \<open>Operating system calls\<close>

text \<open>
  \<open>os.remove\<close>: removes a regular file; raises on a directory, on a missing path and
  when the operating system refuses.
\<close>

definition os_remove :: "path \<Rightarrow> world \<Rightarrow> (unit, world) outcome" where
  "os_remove p w =
     (let w1 = log_event (OsRemove p) w in
      case fs w p of
        Some (File content) \<Rightarrow>
          if can_remove w p then Returns () (w1\<lparr>fs := (fs w)(p := None)\<rparr>)
          else Raises (OSError ''remove'') w1
      | Some Dir \<Rightarrow> Raises (OSError ''remove'') w1
      | None \<Rightarrow> Raises (OSError ''remove'') w1)"

text \<open>
  Lines 42 and 43, \<open>open(yaml_path, 'w')\<close> followed by the dump of the whole
  \<open>dask.config.config\<close>: the file is created or overwritten.
\<close>

definition open_w_yaml_dump :: "path \<Rightarrow> world \<Rightarrow> (unit, world) outcome" where
  "open_w_yaml_dump p w =
     (case fs w p of
        Some Dir \<Rightarrow> Raises (OSError ''open'') w
      | _ \<Rightarrow>
          if can_write w p then Returns () (w\<lparr>fs := (fs w)(p \<mapsto> File (dask_config w))\<rparr>)
          else Raises (OSError ''open'') w)"

text \<open>\<open>Path(p).mkdir(parents=False, exist_ok=True)\<close>.\<close>

definition mkdir_exist_ok :: "path \<Rightarrow> world \<Rightarrow> (unit, world) outcome" where
  "mkdir_exist_ok p w =
     (case fs w p of
        Some Dir \<Rightarrow> Returns () w
      | Some (File content) \<Rightarrow> Raises (OSError ''mkdir'') w
      | None \<Rightarrow>
          if can_mkdir w p then Returns () (w\<lparr>fs := (fs w)(p \<mapsto> Dir)\<rparr>)
          else Raises (OSError ''mkdir'') w)"

subsection \<open>The backend\<close>

text \<open>
  Modelled from the spec: \<open>dask.config.set\<close> belongs to the dask library, which is not
  part of the repository. The configuration dictionary is "a mapping of dotted option
  names to values, merged shallowly (user overrides replace matching keys; defaults
  otherwise retained)".
\<close>

definition config_set :: "dict \<Rightarrow> world \<Rightarrow> world" where
  "config_set options w = w\<lparr>dask_config := dask_config w ++ options\<rparr>"

text \<open>
  A worker pool, as far as the wrapper reads and writes it: the per-worker option
  template \<open>new_spec['options']\<close>. A client is a handle.
\<close>

record cluster_obj =
  new_spec_options :: dict

datatype client_obj = ClientHandle

text \<open>The object \<open>cluster.adapt\<close> returns: the policy that was installed.\<close>

record adaptive =
  minimum_jobs :: int
  maximum_jobs :: int
  interval :: string
  wait_count :: int

definition Client :: "cluster_obj \<Rightarrow> world \<Rightarrow> (client_obj, world) outcome" where
  "Client cl w =
     (if connect_ok w then Returns ClientHandle w else Raises (BackendError ''Client'') w)"

text \<open>
  Modelled from the spec: the pool constructors belong to dask.distributed and
  dask-jobqueue, which are not part of the repository. A pool keeps the keyword options
  it was constructed with as its "stored per-worker option template".
\<close>

definition LocalCluster :: "dict \<Rightarrow> world \<Rightarrow> (cluster_obj, world) outcome" where
  "LocalCluster kwargs w =
     (if spawn_ok w then Returns \<lparr>new_spec_options = kwargs\<rparr> w
      else Raises (BackendError ''LocalCluster'') w)"

text \<open>
  The call of lines 173 to 180 passes five keywords by name and \<open>**kwargs\<close> after them:
  Python raises \<open>TypeError\<close> when \<open>kwargs\<close> repeats one of the five.
\<close>

definition custom_SLURMCluster ::
  "int \<Rightarrow> int \<Rightarrow> string \<Rightarrow> string \<Rightarrow> string list \<Rightarrow> dict \<Rightarrow> world
     \<Rightarrow> (cluster_obj, world) outcome" where
  "custom_SLURMCluster cores processes memory walltime prologue kwargs w =
     (if kwargs ''cores'' \<noteq> None \<or> kwargs ''processes'' \<noteq> None
         \<or> kwargs ''memory'' \<noteq> None \<or> kwargs ''walltime'' \<noteq> None
         \<or> kwargs ''job_script_prologue'' \<noteq> None
      then Raises (TypeError ''multiple values for keyword argument'') w
      else
        (let job_kwargs = kwargs
               (''cores'' \<mapsto> PInt cores,
                ''processes'' \<mapsto> PInt processes,
                ''memory'' \<mapsto> PStr memory,
                ''walltime'' \<mapsto> PStr walltime,
                ''job_script_prologue'' \<mapsto> PList (map PStr prologue));
             w1 = log_event (SLURMClusterCall job_kwargs) w
         in if spawn_ok w then Returns \<lparr>new_spec_options = job_kwargs\<rparr> w1
            else Raises (BackendError ''SLURMCluster'') w1))"

section \<open>The base wrapper (class _cluster)\<close>

text \<open>
  The attributes of a wrapper. \<open>client\<close> and \<open>cluster\<close> are \<open>None\<close> after the base
  constructor; \<open>yaml_path\<close> and \<open>persist_yaml\<close> do not exist until \<open>modify_dask_config\<close>
  has run, and reading a missing attribute raises \<open>AttributeError\<close>.
\<close>

record wrapper =
  client :: "client_obj option"
  cluster :: "cluster_obj option"
  yaml_path :: "path option"
  persist_yaml :: "bool option"

definition cluster_init :: wrapper where
  "cluster_init = \<lparr>client = None, cluster = None, yaml_path = None, persist_yaml = None\<rparr>"

definition set_client :: "client_obj option \<Rightarrow> 'a wrapper_scheme \<Rightarrow> 'a wrapper_scheme" where
  "set_client c self = self\<lparr>client := c\<rparr>"

definition set_cluster :: "cluster_obj option \<Rightarrow> 'a wrapper_scheme \<Rightarrow> 'a wrapper_scheme" where
  "set_cluster c self = self\<lparr>cluster := c\<rparr>"

text \<open>A call that only touches the world, seen as a step of a method of \<open>self\<close>.\<close>

definition in_world :: "'o \<Rightarrow> (unit, world) outcome \<Rightarrow> (unit, 'o \<times> world) outcome" where
  "in_world self m =
     (case m of Returns r w \<Rightarrow> Returns r (self, w) | Raises e w \<Rightarrow> Raises e (self, w))"

text \<open>Lines 27 to 29 of \<open>__exit__\<close>: the configuration file is removed unless it persists.\<close>

definition remove_yaml ::
  "'a wrapper_scheme \<times> world \<Rightarrow> (unit, 'a wrapper_scheme \<times> world) outcome" where
  "remove_yaml st =
     (case st of (self, w) \<Rightarrow>
        (case persist_yaml self of
           None \<Rightarrow> Raises (AttributeError ''persist_yaml'') st
         | Some persist \<Rightarrow>
             if \<not> persist then
               (case yaml_path self of
                  None \<Rightarrow> Raises (AttributeError ''yaml_path'') st
                | Some p \<Rightarrow>
                    if fs w p \<noteq> None then in_world self (os_remove p w)
                    else Returns () st)
             else Returns () st))"

text \<open>Line 30: \<open>self.client.close()\<close>.\<close>

definition client_close ::
  "'a wrapper_scheme \<times> world \<Rightarrow> (unit, 'a wrapper_scheme \<times> world) outcome" where
  "client_close st =
     (case st of (self, w) \<Rightarrow>
        (case client self of
           None \<Rightarrow> Raises (AttributeError ''close'') st
         | Some c \<Rightarrow>
             if close_ok w then Returns () (self, log_event ClientClose w)
             else Raises (BackendError ''Client.close'') (self, log_event ClientClose w)))"

text \<open>
  Line 31: \<open>self.cluster.__exit__(exc_type, exc_value, traceback)\<close>; \<open>exc\<close> is the
  exception in flight when the scope is left, \<open>None\<close> on a normal exit.
\<close>

definition backend_cluster_exit ::
  "exn option \<Rightarrow> 'a wrapper_scheme \<times> world
     \<Rightarrow> (unit, 'a wrapper_scheme \<times> world) outcome" where
  "backend_cluster_exit exc st =
     (case st of (self, w) \<Rightarrow>
        (case cluster self of
           None \<Rightarrow> Raises (AttributeError ''__exit__'') st
         | Some c \<Rightarrow>
             if teardown_ok w then Returns () (self, log_event (ClusterExit exc) w)
             else Raises (BackendError ''cluster.__exit__'')
                    (self, log_event (ClusterExit exc) w)))"

text \<open>
  \<open>_cluster.__exit__\<close>: the three statements in sequence, with no \<open>try\<close> around any of
  them, so the first exception leaves the method.
\<close>

definition wrapper_exit ::
  "exn option \<Rightarrow> 'a wrapper_scheme \<times> world
     \<Rightarrow> (unit, 'a wrapper_scheme \<times> world) outcome" where
  "wrapper_exit exc st =
     and_then (remove_yaml st) (\<lambda>r1 st1.
     and_then (client_close st1) (\<lambda>r2 st2.
     backend_cluster_exit exc st2))"

text \<open>
  \<open>modify_dask_config\<close>. Its defaults are \<open>yaml_name='ClusterWrap.yaml'\<close> and
  \<open>persist_yaml=False\<close>; a call that leaves them out passes \<open>default_yaml_name\<close> and
  \<open>False\<close> here.
\<close>

definition default_yaml_name :: string where
  "default_yaml_name = ''ClusterWrap.yaml''"

definition modify_dask_config ::
  "dict \<Rightarrow> string \<Rightarrow> bool \<Rightarrow> 'a wrapper_scheme \<times> world
     \<Rightarrow> (unit, 'a wrapper_scheme \<times> world) outcome" where
  "modify_dask_config options yaml_name persist st =
     (case st of (self, w) \<Rightarrow>
        (let w1 = config_set options w;
             p = home w1 @ ''/.config/dask/'' @ yaml_name
         in case open_w_yaml_dump p w1 of
              Raises e w2 \<Rightarrow> Raises e (self, w2)
            | Returns r w2 \<Rightarrow>
                Returns () (self\<lparr>yaml_path := Some p, persist_yaml := Some persist\<rparr>, w2)))"

section \<open>The SLURM wrapper (class slurm_cluster)\<close>

record slurm_wrapper = wrapper +
  adapt :: "adaptive option"
  ncpus :: int
  min_workers :: int
  max_workers :: int

text \<open>\<open>adapt_cluster\<close>: an argument that is \<open>None\<close> keeps the stored bound.\<close>

definition adapt_cluster ::
  "int option \<Rightarrow> int option \<Rightarrow> slurm_wrapper \<times> world
     \<Rightarrow> (unit, slurm_wrapper \<times> world) outcome" where
  "adapt_cluster mn mx st =
     (case st of (self, w) \<Rightarrow>
        (let self1 = (case mn of None \<Rightarrow> self | Some m \<Rightarrow> self\<lparr>min_workers := m\<rparr>);
             self2 = (case mx of None \<Rightarrow> self1 | Some m \<Rightarrow> self1\<lparr>max_workers := m\<rparr>)
         in case cluster self2 of
              None \<Rightarrow> Raises (AttributeError ''adapt'') (self2, w)
            | Some c \<Rightarrow>
                (let w1 = log_event
                            (ClusterAdapt (min_workers self2) (max_workers self2) ''10s'' 6) w
                 in if adapt_ok w then
                      Returns ()
                        (self2\<lparr>adapt := Some \<lparr>minimum_jobs = min_workers self2,
                                              maximum_jobs = max_workers self2,
                                              interval = ''10s'',
                                              wait_count = 6\<rparr>\<rparr>, w1)
                    else Raises (BackendError ''cluster.adapt'') (self2, w1))))"

text \<open>Line 196: \<open>self.cluster.scale(n)\<close>.\<close>

definition cluster_scale ::
  "int \<Rightarrow> slurm_wrapper \<times> world \<Rightarrow> (unit, slurm_wrapper \<times> world) outcome" where
  "cluster_scale n st =
     (case st of (self, w) \<Rightarrow>
        (case cluster self of
           None \<Rightarrow> Raises (AttributeError ''scale'') st
         | Some c \<Rightarrow>
             if scale_ok w then Returns () (self, log_event (ClusterScale n) w)
             else Raises (BackendError ''cluster.scale'')
                    (self, log_event (ClusterScale n) w)))"

text \<open>
  Lines 197 and 198: the loop over \<open>kwargs.items()\<close>, in the order of the items, writing
  each into \<open>self.cluster.new_spec['options']\<close>.
\<close>

fun set_options ::
  "(string \<times> pyval) list \<Rightarrow> slurm_wrapper \<times> world
     \<Rightarrow> (unit, slurm_wrapper \<times> world) outcome" where
  "set_options [] st = Returns () st"
| "set_options ((k, v) # kvs) (self, w) =
     (case cluster self of
        None \<Rightarrow> Raises (AttributeError ''new_spec'') (self, w)
      | Some c \<Rightarrow>
          set_options kvs
            (self\<lparr>cluster :=
                    Some (c\<lparr>new_spec_options := (new_spec_options c)(k \<mapsto> v)\<rparr>)\<rparr>,
             log_event (SetOption k v) w))"

text \<open>The dictionary that the writes of this loop leave.\<close>

fun overridden :: "(string \<times> pyval) list \<Rightarrow> dict \<Rightarrow> dict" where
  "overridden [] m = m"
| "overridden ((k, v) # kvs) m = overridden kvs (m(k \<mapsto> v))"

text \<open>
  \<open>change_worker_attributes\<close>. The two bounds are the integers the class documents;
  \<open>kwargs\<close> is the list of items of the keyword dictionary.
\<close>

definition change_worker_attributes ::
  "int \<Rightarrow> int \<Rightarrow> (string \<times> pyval) list \<Rightarrow> slurm_wrapper \<times> world
     \<Rightarrow> (unit, slurm_wrapper \<times> world) outcome" where
  "change_worker_attributes mn mx kwargs st =
     and_then (cluster_scale 0 st) (\<lambda>r1 st1.
     and_then (set_options kwargs st1) (\<lambda>r2 st2.
     adapt_cluster (Some mn) (Some mx) st2))"

text \<open>Lines 146 to 152: the five statements, \<open>tpw\<close> formatted by the f-strings.\<close>

definition job_script_prologue :: "int \<Rightarrow> string list" where
  "job_script_prologue tpw =
     [''export MKL_NUM_THREADS='' @ str_int tpw,
      ''export NUM_MKL_THREADS='' @ str_int tpw,
      ''export OPENBLAS_NUM_THREADS='' @ str_int tpw,
      ''export OPENMP_NUM_THREADS='' @ str_int tpw,
      ''export OMP_NUM_THREADS='' @ str_int tpw]"

text \<open>Lines 159 to 162: the default log directory, created when the caller names none.\<close>

definition log_directory_default :: "dict \<Rightarrow> world \<Rightarrow> (dict, world) outcome" where
  "log_directory_default kwargs w =
     (if kwargs ''log_directory'' = None then
        (let log_dir = cwd w @ ''/dask_worker_logs_'' @ str_int (pid w) @ ''/'' in
         case mkdir_exist_ok log_dir w of
           Raises e w1 \<Rightarrow> Raises e w1
         | Returns r w1 \<Rightarrow> Returns (kwargs(''log_directory'' \<mapsto> PStr log_dir)) w1)
      else Returns kwargs w)"

text \<open>
  \<open>slurm_cluster.__init__\<close>. Its arguments, in the order of the signature: \<open>ncpus\<close>,
  \<open>processes\<close>, \<open>threads\<close>, \<open>min_workers\<close>, \<open>max_workers\<close>, \<open>walltime\<close>, \<open>config\<close> and the
  keyword dictionary. An exception leaves the constructor with no object.
\<close>

definition slurm_cluster_init ::
  "int \<Rightarrow> int \<Rightarrow> int option \<Rightarrow> int \<Rightarrow> int \<Rightarrow> string \<Rightarrow> dict \<Rightarrow> dict \<Rightarrow> world
     \<Rightarrow> (slurm_wrapper, world) outcome" where
  "slurm_cluster_init ncpus' processes threads mn mx walltime config kwargs w =
     (case environ w ''USER'' of
        None \<Rightarrow> Raises (KeyError ''USER'') w
      | Some USER \<Rightarrow>
          (let config_defaults =
                 [''temporary-directory'' \<mapsto> PStr (''/local/workdir/temp/'' @ USER @ ''/''),
                  ''distributed.comm.timeouts.connect'' \<mapsto> PStr ''180s'',
                  ''distributed.comm.timeouts.tcp'' \<mapsto> PStr ''360s''] ++ config
           in
           case modify_dask_config config_defaults default_yaml_name False (cluster_init, w) of
             Raises e (self0, w1) \<Rightarrow> Raises e w1
           | Returns r (self0, w1) \<Rightarrow>
               (let self1 = \<lparr>client = client self0, cluster = cluster self0,
                             yaml_path = yaml_path self0, persist_yaml = persist_yaml self0,
                             adapt = None, ncpus = ncpus', min_workers = mn,
                             max_workers = mx\<rparr>;
                    tpw = 2 * ncpus';
                    prologue = job_script_prologue tpw;
                    kwargs1 =
                      (if kwargs ''local_directory'' = None
                       then kwargs(''local_directory'' \<mapsto> PStr (cwd w1 @ ''/dask_workers/''))
                       else kwargs)
                in
                case log_directory_default kwargs1 w1 of
                  Raises e w2 \<Rightarrow> Raises e w2
                | Returns kwargs2 w2 \<Rightarrow>
                    (let memory = str_int (15 * ncpus') @ ''GB'';
                         threads1 = (case threads of None \<Rightarrow> ncpus' | Some t \<Rightarrow> t)
                     in
                     case custom_SLURMCluster threads1 processes memory walltime prologue
                            kwargs2 w2 of
                       Raises e w3 \<Rightarrow> Raises e w3
                     | Returns cl w3 \<Rightarrow>
                         (case Client cl w3 of
                            Raises e w4 \<Rightarrow> Raises e w4
                          | Returns c w4 \<Rightarrow>
                              (let self2 = set_client (Some c) (set_cluster (Some cl) self1)
                               in
                               case adapt_cluster (Some mn) (Some mx) (self2, w4) of
                                 Raises e (self3, w5) \<Rightarrow> Raises e w5
                               | Returns r (self3, w5) \<Rightarrow> Returns self3 w5))))))"

section \<open>The local and remote wrappers\<close>



section \<open>Concrete worlds and wrappers\<close>

text \<open>
  A host where every call succeeds: user \<open>alice\<close>, the configuration directory exists,
  no configuration file yet.
\<close>

definition world0 :: world where
  "world0 =
     \<lparr>dask_config = [''scheduler'' \<mapsto> PStr ''threads''],
      fs = [''/home/alice/.config/dask'' \<mapsto> Dir, ''/work'' \<mapsto> Dir],
      home = ''/home/alice'',
      environ = [''USER'' \<mapsto> ''alice''],
      cwd = ''/work'',
      pid = 4242,
      can_write = (\<lambda>p. True),
      can_remove = (\<lambda>p. True),
      can_mkdir = (\<lambda>p. True),
      spawn_ok = True,
      connect_ok = True,
      scale_ok = True,
      adapt_ok = True,
      close_ok = True,
      teardown_ok = True,
      trace = []\<rparr>"

text \<open>The default configuration file of user \<open>alice\<close>.\<close>

definition yaml0 :: path where
  "yaml0 = ''/home/alice/.config/dask/ClusterWrap.yaml''"

text \<open>
  The wrapper and the world that \<open>local_cluster()\<close> with no arguments leaves in \<open>world0\<close>:
  the configuration file is written and does not persist.
\<close>

definition wrapper_local :: wrapper where
  "wrapper_local =
     \<lparr>client = Some ClientHandle,
      cluster = Some \<lparr>new_spec_options = [''host'' \<mapsto> PStr '''']\<rparr>,
      yaml_path = Some yaml0,
      persist_yaml = Some False\<rparr>"

definition world1 :: world where
  "world1 = world0\<lparr>fs := (fs world0)(yaml0 \<mapsto> File (dask_config world0))\<rparr>"

text \<open>The same world, except that closing the client raises.\<close>

definition world_close_fails :: world where
  "world_close_fails = world1\<lparr>close_ok := False\<rparr>"

text \<open>The same world, except that the operating system refuses every removal.\<close>

definition world_remove_fails :: world where
  "world_remove_fails = world1\<lparr>can_remove := (\<lambda>p. False)\<rparr>"

text \<open>
  The pool, the wrapper and the world that \<open>slurm_cluster()\<close> with no arguments
  (\<open>ncpus=4\<close>, \<open>processes=1\<close>, \<open>threads=None\<close>, \<open>min_workers=1\<close>, \<open>max_workers=4\<close>,
  \<open>walltime="3:59"\<close>) leaves in \<open>world0\<close>.
\<close>

definition cluster0 :: cluster_obj where
  "cluster0 =
     \<lparr>new_spec_options =
        [''local_directory'' \<mapsto> PStr ''/work/dask_workers/'',
         ''log_directory'' \<mapsto> PStr ''/work/dask_worker_logs_4242/'',
         ''cores'' \<mapsto> PInt 4,
         ''processes'' \<mapsto> PInt 1,
         ''memory'' \<mapsto> PStr ''60GB'',
         ''walltime'' \<mapsto> PStr ''3:59'',
         ''job_script_prologue'' \<mapsto>
           PList [PStr ''export MKL_NUM_THREADS=8'',
                  PStr ''export NUM_MKL_THREADS=8'',
                  PStr ''export OPENBLAS_NUM_THREADS=8'',
                  PStr ''export OPENMP_NUM_THREADS=8'',
                  PStr ''export OMP_NUM_THREADS=8'']]\<rparr>"

definition slurm0 :: slurm_wrapper where
  "slurm0 =
     \<lparr>client = Some ClientHandle,
      cluster = Some cluster0,
      yaml_path = Some yaml0,
      persist_yaml = Some False,
      adapt = Some \<lparr>minimum_jobs = 1, maximum_jobs = 4, interval = ''10s'', wait_count = 6\<rparr>,
      ncpus = 4,
      min_workers = 1,
      max_workers = 4\<rparr>"

definition slurm_config :: dict where
  "slurm_config =
     dask_config world0 ++
       [''temporary-directory'' \<mapsto> PStr ''/local/workdir/temp/alice/'',
        ''distributed.comm.timeouts.connect'' \<mapsto> PStr ''180s'',
        ''distributed.comm.timeouts.tcp'' \<mapsto> PStr ''360s'']"

definition world_slurm :: world where
  "world_slurm =
     world0\<lparr>dask_config := slurm_config,
            fs := (fs world0)(yaml0 \<mapsto> File slurm_config,
                              ''/work/dask_worker_logs_4242/'' \<mapsto> Dir),
            trace := [SLURMClusterCall (new_spec_options cluster0),
                      ClusterAdapt 1 4 ''10s'' 6]\<rparr>"





section \<open>Properties of the environment selector\<close>

lemma bsub_check_fst:
  "fst (bsub_check h (cl, cmds)) =
     (if which h ''bsub'' \<noteq> None \<and> system h ''bsub -V'' \<noteq> 32512
      then janelia_lsf_cluster else cl)"
  by (simp add: bsub_check_def)

lemma srun_check_fst:
  "fst (srun_check h sel) =
     (if which h ''srun'' \<noteq> None \<and> WEXITSTATUS (system h ''srun --version'') = 0
      then slurm_cluster else fst sel)"
  by (cases sel) (simp add: srun_check_def)

lemma srun_check_snd:
  "snd (srun_check h sel) =
     (if which h ''srun'' \<noteq> None then snd sel @ [''srun --version''] else snd sel)"
  by (cases sel) (simp add: srun_check_def)

text \<open>
  C1, as the source has it. The two checks are two consecutive \<open>if\<close> statements, not an
  else-if chain. Whenever \<open>srun\<close> is on the search path, \<open>srun --version\<close> is run, also
  after the \<open>bsub\<close> block has selected \<open>janelia_lsf_cluster\<close>; and when its decoded exit
  status is 0 the final binding is \<open>slurm_cluster\<close> whatever the \<open>bsub\<close> block selected.
  The binding of the \<open>bsub\<close> block survives exactly when \<open>srun\<close> is absent or its decoded
  exit status is not 0.
\<close>

theorem select_cluster_srun_after_bsub:
  "fst (select_cluster h) =
     (if which h ''srun'' \<noteq> None \<and> WEXITSTATUS (system h ''srun --version'') = 0
      then slurm_cluster
      else fst (bsub_check h (local_cluster, [])))
   \<and> (which h ''srun'' \<noteq> None \<longrightarrow> ''srun --version'' \<in> set (snd (select_cluster h)))"
  by (simp add: select_cluster_def srun_check_fst srun_check_snd)

theorem select_cluster_srun_after_bsub_witness:
  "which host_both ''srun'' \<noteq> None
   \<and> fst (bsub_check host_both (local_cluster, [])) = janelia_lsf_cluster
   \<and> fst (select_cluster host_both) = slurm_cluster
   \<and> ''srun --version'' \<in> set (snd (select_cluster host_both))"
proof -
  have srun: "which host_both ''srun'' \<noteq> None"
    by (simp add: host_both_def)
  have status: "WEXITSTATUS (system host_both ''srun --version'') = 0"
    by (simp add: host_both_def WEXITSTATUS_def)
  have lsf: "fst (bsub_check host_both (local_cluster, [])) = janelia_lsf_cluster"
    by (simp add: bsub_check_fst host_both_def)
  from select_cluster_srun_after_bsub [of host_both] srun status lsf
  show ?thesis by simp
qed

text \<open>
  C1 as the claim states it fails: on a host with both schedulers, both version commands
  exiting with status 0, the \<open>bsub\<close> block selects \<open>janelia_lsf_cluster\<close>, yet
  \<open>srun --version\<close> is run and the final binding is not \<open>janelia_lsf_cluster\<close>.
\<close>

theorem select_cluster_else_if_counterexample:
  "fst (bsub_check host_both (local_cluster, [])) = janelia_lsf_cluster
   \<and> ''srun --version'' \<in> set (snd (select_cluster host_both))
   \<and> fst (select_cluster host_both) \<noteq> janelia_lsf_cluster"
  by (simp add: select_cluster_def srun_check_def bsub_check_def host_both_def
      WEXITSTATUS_def)

text \<open>
  C2, as the source has it. The comparison is \<open>!=\<close>: when \<open>bsub\<close> is on the search path,
  the \<open>bsub\<close> block selects \<open>janelia_lsf_cluster\<close> exactly when the raw status of
  \<open>bsub -V\<close> differs from 32512; at the raw status 32512 the binding is left as it was.
\<close>

theorem bsub_check_selects_iff_not_sentinel:
  "which h ''bsub'' \<noteq> None \<Longrightarrow>
     (fst (bsub_check h (local_cluster, [])) = janelia_lsf_cluster)
       = (system h ''bsub -V'' \<noteq> 32512)
     \<and> (system h ''bsub -V'' = 32512 \<longrightarrow>
          fst (bsub_check h (local_cluster, [])) = local_cluster)"
  by (simp add: bsub_check_fst)

theorem bsub_check_selects_iff_not_sentinel_witness:
  "which host_lsf ''bsub'' \<noteq> None
   \<and> system host_lsf ''bsub -V'' \<noteq> 32512
   \<and> fst (bsub_check host_lsf (local_cluster, [])) = janelia_lsf_cluster"
proof -
  have bsub: "which host_lsf ''bsub'' \<noteq> None"
    by (simp add: host_lsf_def)
  have status: "system host_lsf ''bsub -V'' \<noteq> 32512"
    by (simp add: host_lsf_def)
  from bsub_check_selects_iff_not_sentinel [OF bsub] status bsub
  show ?thesis by simp
qed

text \<open>
  C2 as the claim states it fails in both directions: at the raw status 32512 the
  \<open>bsub\<close> block does not select \<open>janelia_lsf_cluster\<close> (the default stays
  \<open>local_cluster\<close>), and at the raw status 0, which is not the sentinel, it does.
\<close>

theorem bsub_check_sentinel_counterexample:
  "which host_lsf_127 ''bsub'' \<noteq> None
   \<and> system host_lsf_127 ''bsub -V'' = 32512
   \<and> fst (select_cluster host_lsf_127) = local_cluster
   \<and> which host_lsf ''bsub'' \<noteq> None
   \<and> system host_lsf ''bsub -V'' \<noteq> 32512
   \<and> fst (select_cluster host_lsf) = janelia_lsf_cluster"
  by (simp add: select_cluster_def srun_check_def bsub_check_def host_lsf_127_def
      host_lsf_def)

section \<open>Properties of scope exit\<close>

lemma and_then_Returns [simp]: "and_then (Returns r s) f = f r s"
  by (simp add: and_then_def)

lemma and_then_Raises [simp]: "and_then (Raises e s) f = Raises e s"
  by (simp add: and_then_def)

lemma trace_log_event [simp]: "trace (log_event ev w) = trace w @ [ev]"
  by (simp add: log_event_def)

lemma fs_log_event [simp]: "fs (log_event ev w) = fs w"
  by (simp add: log_event_def)

lemma remove_yaml_persist:
  "persist_yaml self = Some True \<Longrightarrow> remove_yaml (self, w) = Returns () (self, w)"
  by (simp add: remove_yaml_def)

lemma remove_yaml_absent:
  "persist_yaml self = Some False \<Longrightarrow> yaml_path self = Some p \<Longrightarrow> fs w p = None \<Longrightarrow>
     remove_yaml (self, w) = Returns () (self, w)"
  by (simp add: remove_yaml_def)

lemma remove_yaml_Returns:
  assumes "remove_yaml (self, w) = Returns r (self1, w1)"
    and "persist_yaml self = Some False" and "yaml_path self = Some p"
  shows "self1 = self \<and> fs w1 p = None
         \<and> (trace w1 = trace w \<or> trace w1 = trace w @ [OsRemove p])"
  using assms
  by (auto simp: remove_yaml_def in_world_def os_remove_def Let_def
      split: option.splits node.splits if_splits)

lemma remove_yaml_Raises:
  assumes "remove_yaml (self, w) = Raises e (self1, w1)"
  shows "self1 = self
         \<and> (trace w1 = trace w \<or> (\<exists>p. yaml_path self = Some p \<and> trace w1 = trace w @ [OsRemove p]))"
  using assms
  by (auto simp: remove_yaml_def in_world_def os_remove_def Let_def
      split: option.splits node.splits if_splits)

lemma client_close_Returns:
  assumes "client_close (self, w) = Returns r (self1, w1)"
  shows "self1 = self \<and> fs w1 = fs w \<and> trace w1 = trace w @ [ClientClose]"
  using assms by (auto simp: client_close_def split: option.splits if_splits)

lemma client_close_Raises:
  assumes "client_close (self, w) = Raises e (self1, w1)"
  shows "self1 = self \<and> fs w1 = fs w
         \<and> (trace w1 = trace w \<or> trace w1 = trace w @ [ClientClose])"
  using assms by (auto simp: client_close_def split: option.splits if_splits)

lemma backend_cluster_exit_Returns:
  assumes "backend_cluster_exit exc (self, w) = Returns r (self1, w1)"
  shows "self1 = self \<and> fs w1 = fs w \<and> trace w1 = trace w @ [ClusterExit exc]"
  using assms by (auto simp: backend_cluster_exit_def split: option.splits if_splits)

lemma wrapper_exit_Returns:
  assumes "wrapper_exit exc (self, w) = Returns r (self', w')"
  obtains w1 w2 where
    "remove_yaml (self, w) = Returns () (self, w1)"
    "client_close (self, w1) = Returns () (self, w2)"
    "backend_cluster_exit exc (self, w2) = Returns () (self', w')"
proof -
  from assms obtain r1 s1 w1 where 1: "remove_yaml (self, w) = Returns r1 (s1, w1)"
    and rest1: "and_then (client_close (s1, w1)) (\<lambda>r2 st2. backend_cluster_exit exc st2)
                  = Returns r (self', w')"
    by (cases "remove_yaml (self, w)") (auto simp: wrapper_exit_def)
  have s1: "s1 = self"
    using 1 by (auto simp: remove_yaml_def in_world_def os_remove_def Let_def
        split: option.splits node.splits if_splits)
  from rest1 obtain r2 s2 w2 where 2: "client_close (s1, w1) = Returns r2 (s2, w2)"
    and rest2: "backend_cluster_exit exc (s2, w2) = Returns r (self', w')"
    by (cases "client_close (s1, w1)") auto
  have s2: "s2 = s1"
    using 2 client_close_Returns by blast
  from 1 2 rest2 s1 s2 that show thesis by simp
qed

text \<open>
  C4. When scope exit completes: with \<open>persist_yaml\<close> false no file is left at
  \<open>yaml_path\<close>; with \<open>persist_yaml\<close> true the removal step is skipped (the only calls made
  are the client close and the cluster teardown) and the file system is as it was, so
  the file at \<open>yaml_path\<close> still exists.
\<close>

theorem wrapper_exit_yaml_file:
  assumes "wrapper_exit exc (self, w) = Returns () (self', w')"
    and "yaml_path self = Some p"
  shows "(persist_yaml self = Some False \<longrightarrow> fs w' p = None)
       \<and> (persist_yaml self = Some True \<longrightarrow>
            fs w' p = fs w p \<and> trace w' = trace w @ [ClientClose, ClusterExit exc])"
proof -
  from assms(1) obtain w1 w2 where
    1: "remove_yaml (self, w) = Returns () (self, w1)" and
    2: "client_close (self, w1) = Returns () (self, w2)" and
    3: "backend_cluster_exit exc (self, w2) = Returns () (self', w')"
    by (rule wrapper_exit_Returns)
  have fs23: "fs w' = fs w1"
    using client_close_Returns [OF 2] backend_cluster_exit_Returns [OF 3] by simp
  have tr23: "trace w' = trace w1 @ [ClientClose, ClusterExit exc]"
    using client_close_Returns [OF 2] backend_cluster_exit_Returns [OF 3] by simp
  have a: "fs w' p = None" if "persist_yaml self = Some False"
    using remove_yaml_Returns [OF 1 that assms(2)] fs23 by simp
  have b: "fs w' p = fs w p \<and> trace w' = trace w @ [ClientClose, ClusterExit exc]"
    if "persist_yaml self = Some True"
    using 1 remove_yaml_persist [OF that, of w] fs23 tr23 by simp
  from a b show ?thesis by blast
qed


lemma wrapper_local_exit:
  "wrapper_exit None (wrapper_local, world1) =
     Returns () (wrapper_local,
       world1\<lparr>fs := (fs world1)(yaml0 := None),
              trace := [OsRemove yaml0, ClientClose, ClusterExit None]\<rparr>)"
  by (simp add: wrapper_exit_def remove_yaml_def client_close_def backend_cluster_exit_def
      in_world_def os_remove_def log_event_def wrapper_local_def world1_def world0_def
      yaml0_def)

lemma wrapper_local_persist_exit:
  "wrapper_exit None (wrapper_local\<lparr>persist_yaml := Some True\<rparr>, world1) =
     Returns () (wrapper_local\<lparr>persist_yaml := Some True\<rparr>,
       world1\<lparr>trace := [ClientClose, ClusterExit None]\<rparr>)"
  by (simp add: wrapper_exit_def remove_yaml_def client_close_def backend_cluster_exit_def
      log_event_def wrapper_local_def world1_def world0_def)

theorem wrapper_exit_yaml_file_witness:
  "wrapper_exit None (wrapper_local, world1) =
     Returns () (wrapper_local,
       world1\<lparr>fs := (fs world1)(yaml0 := None),
              trace := [OsRemove yaml0, ClientClose, ClusterExit None]\<rparr>)
   \<and> fs world1 yaml0 \<noteq> None
   \<and> fs (world1\<lparr>fs := (fs world1)(yaml0 := None),
                 trace := [OsRemove yaml0, ClientClose, ClusterExit None]\<rparr>) yaml0 = None
   \<and> wrapper_exit None (wrapper_local\<lparr>persist_yaml := Some True\<rparr>, world1) =
       Returns () (wrapper_local\<lparr>persist_yaml := Some True\<rparr>,
         world1\<lparr>trace := [ClientClose, ClusterExit None]\<rparr>)
   \<and> fs (world1\<lparr>trace := [ClientClose, ClusterExit None]\<rparr>) yaml0 = fs world1 yaml0"
proof -
  have p1: "yaml_path wrapper_local = Some yaml0"
    and f1: "persist_yaml wrapper_local = Some False"
    by (simp_all add: wrapper_local_def)
  have p2: "yaml_path (wrapper_local\<lparr>persist_yaml := Some True\<rparr>) = Some yaml0"
    and f2: "persist_yaml (wrapper_local\<lparr>persist_yaml := Some True\<rparr>) = Some True"
    by (simp_all add: wrapper_local_def)
  have ex: "fs world1 yaml0 \<noteq> None"
    by (simp add: world1_def)
  from wrapper_exit_yaml_file [OF wrapper_local_exit p1] f1
    wrapper_exit_yaml_file [OF wrapper_local_persist_exit p2] f2
    wrapper_local_exit wrapper_local_persist_exit ex
  show ?thesis by simp
qed

text \<open>
  C10. With \<open>persist_yaml\<close> false and no file at \<open>yaml_path\<close>, the removal step of scope
  exit returns without touching the world (\<open>os.remove\<close> is not called), so scope exit is
  the client close followed by the cluster teardown, and it never raises the error of a
  failed removal.
\<close>

theorem wrapper_exit_absent_file:
  assumes "persist_yaml self = Some False" and "yaml_path self = Some p"
    and "fs w p = None"
  shows "remove_yaml (self, w) = Returns () (self, w)
       \<and> wrapper_exit exc (self, w) =
           and_then (client_close (self, w)) (\<lambda>r st. backend_cluster_exit exc st)
       \<and> wrapper_exit exc (self, w) \<noteq> Raises (OSError ''remove'') st"
proof -
  have 1: "remove_yaml (self, w) = Returns () (self, w)"
    using assms by (rule remove_yaml_absent)
  have 2: "wrapper_exit exc (self, w) =
             and_then (client_close (self, w)) (\<lambda>r st. backend_cluster_exit exc st)"
    by (simp add: wrapper_exit_def 1)
  have 3: "wrapper_exit exc (self, w) \<noteq> Raises (OSError ''remove'') st"
    unfolding 2
    by (auto simp: client_close_def backend_cluster_exit_def and_then_def
        split: option.splits outcome.splits)
  from 1 2 3 show ?thesis by blast
qed

theorem wrapper_exit_absent_file_witness:
  "persist_yaml wrapper_local = Some False
   \<and> yaml_path wrapper_local = Some yaml0
   \<and> fs world0 yaml0 = None
   \<and> remove_yaml (wrapper_local, world0) = Returns () (wrapper_local, world0)
   \<and> wrapper_exit None (wrapper_local, world0) =
       Returns () (wrapper_local, world0\<lparr>trace := [ClientClose, ClusterExit None]\<rparr>)"
proof -
  have a: "persist_yaml wrapper_local = Some False"
    and b: "yaml_path wrapper_local = Some yaml0"
    by (simp_all add: wrapper_local_def)
  have c: "fs world0 yaml0 = None"
    by (simp add: world0_def yaml0_def)
  have d: "and_then (client_close (wrapper_local, world0))
             (\<lambda>r st. backend_cluster_exit None st) =
           Returns () (wrapper_local, world0\<lparr>trace := [ClientClose, ClusterExit None]\<rparr>)"
    by (simp add: client_close_def backend_cluster_exit_def log_event_def
        wrapper_local_def world0_def)
  from wrapper_exit_absent_file [OF a b c, of None] a b c d
  show ?thesis by simp
qed

text \<open>
  C3, as the source has it. The three steps of scope exit are taken in the order file
  cleanup, client close, cluster teardown, for every in-flight exception \<open>exc\<close>. When
  scope exit returns, all three have run in that order. An exception raised by a step
  leaves \<open>__exit__\<close> at once: when the file cleanup raises, neither the client close nor
  the cluster teardown is called, and when the client close raises, the cluster teardown
  is not called.
\<close>

theorem wrapper_exit_stops_at_first_failure:
  "(wrapper_exit exc (self, w) = Returns () (self', w') \<longrightarrow>
      (\<exists>rm. trace w' = trace w @ rm @ [ClientClose, ClusterExit exc]
            \<and> (rm = [] \<or> (\<exists>p. yaml_path self = Some p \<and> rm = [OsRemove p]))))
   \<and> (remove_yaml (self, w) = Raises e (self1, w1) \<longrightarrow>
        wrapper_exit exc (self, w) = Raises e (self1, w1)
        \<and> (\<exists>evs. trace w1 = trace w @ evs
                 \<and> ClientClose \<notin> set evs \<and> ClusterExit exc \<notin> set evs))
   \<and> (remove_yaml (self, w) = Returns () (self1, w1)
        \<and> client_close (self1, w1) = Raises e (self2, w2) \<longrightarrow>
        wrapper_exit exc (self, w) = Raises e (self2, w2)
        \<and> (\<exists>evs. trace w2 = trace w @ evs \<and> ClusterExit exc \<notin> set evs))"
proof (intro conjI impI)
  assume r: "wrapper_exit exc (self, w) = Returns () (self', w')"
  then obtain v1 v2 where
    1: "remove_yaml (self, w) = Returns () (self, v1)" and
    2: "client_close (self, v1) = Returns () (self, v2)" and
    3: "backend_cluster_exit exc (self, v2) = Returns () (self', w')"
    by (rule wrapper_exit_Returns)
  have t1: "trace v1 = trace w \<or> (\<exists>p. yaml_path self = Some p \<and> trace v1 = trace w @ [OsRemove p])"
    using 1 by (auto simp: remove_yaml_def in_world_def os_remove_def Let_def
        split: option.splits node.splits if_splits)
  have t23: "trace w' = trace v1 @ [ClientClose, ClusterExit exc]"
    using client_close_Returns [OF 2] backend_cluster_exit_Returns [OF 3] by simp
  from t1 t23
  show "\<exists>rm. trace w' = trace w @ rm @ [ClientClose, ClusterExit exc]
            \<and> (rm = [] \<or> (\<exists>p. yaml_path self = Some p \<and> rm = [OsRemove p]))"
    by auto
next
  assume r: "remove_yaml (self, w) = Raises e (self1, w1)"
  then show "wrapper_exit exc (self, w) = Raises e (self1, w1)"
    by (simp add: wrapper_exit_def)
  from remove_yaml_Raises [OF r]
  show "\<exists>evs. trace w1 = trace w @ evs \<and> ClientClose \<notin> set evs \<and> ClusterExit exc \<notin> set evs"
    by auto
next
  assume r: "remove_yaml (self, w) = Returns () (self1, w1)
             \<and> client_close (self1, w1) = Raises e (self2, w2)"
  then show "wrapper_exit exc (self, w) = Raises e (self2, w2)"
    by (simp add: wrapper_exit_def)
  have t1: "trace w1 = trace w \<or> (\<exists>p. trace w1 = trace w @ [OsRemove p])"
    using r by (auto simp: remove_yaml_def in_world_def os_remove_def Let_def
        split: option.splits node.splits if_splits)
  have t2: "trace w2 = trace w1 \<or> trace w2 = trace w1 @ [ClientClose]"
    using r client_close_Raises by blast
  from t1 t2
  show "\<exists>evs. trace w2 = trace w @ evs \<and> ClusterExit exc \<notin> set evs"
    by auto
qed

lemma wrapper_local_exit_remove_fails:
  "remove_yaml (wrapper_local, world_remove_fails) =
     Raises (OSError ''remove'')
       (wrapper_local, world_remove_fails\<lparr>trace := [OsRemove yaml0]\<rparr>)"
  by (simp add: remove_yaml_def in_world_def os_remove_def log_event_def
      wrapper_local_def world_remove_fails_def world1_def world0_def yaml0_def)

lemma wrapper_local_exit_close_fails:
  "remove_yaml (wrapper_local, world_close_fails) =
     Returns () (wrapper_local,
       world_close_fails\<lparr>fs := (fs world1)(yaml0 := None), trace := [OsRemove yaml0]\<rparr>)
   \<and> client_close (wrapper_local,
       world_close_fails\<lparr>fs := (fs world1)(yaml0 := None), trace := [OsRemove yaml0]\<rparr>) =
     Raises (BackendError ''Client.close'')
       (wrapper_local,
        world_close_fails\<lparr>fs := (fs world1)(yaml0 := None),
                           trace := [OsRemove yaml0, ClientClose]\<rparr>)"
  by (simp add: remove_yaml_def client_close_def in_world_def os_remove_def log_event_def
      wrapper_local_def world_close_fails_def world1_def world0_def yaml0_def)

theorem wrapper_exit_stops_at_first_failure_witness:
  "wrapper_exit None (wrapper_local, world1) =
     Returns () (wrapper_local,
       world1\<lparr>fs := (fs world1)(yaml0 := None),
              trace := [OsRemove yaml0, ClientClose, ClusterExit None]\<rparr>)
   \<and> wrapper_exit None (wrapper_local, world_remove_fails) =
       Raises (OSError ''remove'')
         (wrapper_local, world_remove_fails\<lparr>trace := [OsRemove yaml0]\<rparr>)
   \<and> wrapper_exit None (wrapper_local, world_close_fails) =
       Raises (BackendError ''Client.close'')
         (wrapper_local,
          world_close_fails\<lparr>fs := (fs world1)(yaml0 := None),
                             trace := [OsRemove yaml0, ClientClose]\<rparr>)"
proof -
  note main = wrapper_exit_stops_at_first_failure
  have a: "wrapper_exit None (wrapper_local, world_remove_fails) =
       Raises (OSError ''remove'')
         (wrapper_local, world_remove_fails\<lparr>trace := [OsRemove yaml0]\<rparr>)"
    using main [of None wrapper_local world_remove_fails wrapper_local world_remove_fails
        "OSError ''remove''" wrapper_local "world_remove_fails\<lparr>trace := [OsRemove yaml0]\<rparr>"]
      wrapper_local_exit_remove_fails
    by blast
  have b: "wrapper_exit None (wrapper_local, world_close_fails) =
       Raises (BackendError ''Client.close'')
         (wrapper_local,
          world_close_fails\<lparr>fs := (fs world1)(yaml0 := None),
                             trace := [OsRemove yaml0, ClientClose]\<rparr>)"
    using main [of None wrapper_local world_close_fails wrapper_local world_close_fails
        "BackendError ''Client.close''" wrapper_local
        "world_close_fails\<lparr>fs := (fs world1)(yaml0 := None), trace := [OsRemove yaml0]\<rparr>"
        wrapper_local
        "world_close_fails\<lparr>fs := (fs world1)(yaml0 := None),
                             trace := [OsRemove yaml0, ClientClose]\<rparr>"]
      wrapper_local_exit_close_fails
    by blast
  from wrapper_local_exit a b show ?thesis by simp
qed

text \<open>
  C3 as the claim states it fails: where closing the client raises, scope exit raises
  that exception after the file cleanup and the client close, and the cluster teardown
  is never called.
\<close>

theorem wrapper_exit_run_all_counterexample:
  "wrapper_exit None (wrapper_local, world_close_fails) =
     Raises (BackendError ''Client.close'')
       (wrapper_local,
        world_close_fails\<lparr>fs := (fs world1)(yaml0 := None),
                           trace := [OsRemove yaml0, ClientClose]\<rparr>)
   \<and> ClusterExit None \<notin> set (trace (snd (final (wrapper_exit None
                                 (wrapper_local, world_close_fails)))))"
  by (simp add: wrapper_exit_def remove_yaml_def client_close_def in_world_def
      os_remove_def log_event_def wrapper_local_def world_close_fails_def world1_def
      world0_def yaml0_def)

section \<open>Properties of the configuration\<close>

lemma map_add_twice: "m ++ n ++ n = m ++ n"
  by (rule ext) (simp add: map_add_def split: option.splits)

lemma modify_dask_config_final_config:
  "dask_config (snd (final (modify_dask_config options yaml_name persist st)))
     = dask_config (snd st) ++ options"
  by (cases st)
    (auto simp: modify_dask_config_def config_set_def open_w_yaml_dump_def Let_def
      split: option.splits node.splits outcome.splits)

text \<open>
  C5. After two calls of \<open>modify_dask_config\<close>, with options \<open>opts1\<close> and then \<open>opts2\<close>,
  the process-wide configuration maps every key of \<open>opts2\<close> to the value of \<open>opts2\<close>,
  every other key of \<open>opts1\<close> to the value of \<open>opts1\<close>, and every key of neither to the
  value it had before. \<open>final\<close> is the state a call leaves, whether it returns or raises:
  the configuration is merged before the file is opened.
\<close>

theorem modify_dask_config_last_write_wins:
  "dask_config (snd (final (modify_dask_config opts2 name2 persist2
       (final (modify_dask_config opts1 name1 persist1 (self, w)))))) k
   = (case opts2 k of
        Some v2 \<Rightarrow> Some v2
      | None \<Rightarrow> (case opts1 k of Some v1 \<Rightarrow> Some v1 | None \<Rightarrow> dask_config w k))"
  by (simp add: modify_dask_config_final_config map_add_def split: option.splits)

theorem modify_dask_config_last_write_wins_witness:
  "dask_config (snd (final (modify_dask_config [''b'' \<mapsto> PInt 3] default_yaml_name False
       (final (modify_dask_config [''a'' \<mapsto> PInt 1, ''b'' \<mapsto> PInt 2] default_yaml_name
                 False (wrapper_local, world1)))))) ''b'' = Some (PInt 3)
   \<and> dask_config (snd (final (modify_dask_config [''b'' \<mapsto> PInt 3] default_yaml_name False
       (final (modify_dask_config [''a'' \<mapsto> PInt 1, ''b'' \<mapsto> PInt 2] default_yaml_name
                 False (wrapper_local, world1)))))) ''a'' = Some (PInt 1)
   \<and> dask_config (snd (final (modify_dask_config [''b'' \<mapsto> PInt 3] default_yaml_name False
       (final (modify_dask_config [''a'' \<mapsto> PInt 1, ''b'' \<mapsto> PInt 2] default_yaml_name
                 False (wrapper_local, world1)))))) ''scheduler'' = Some (PStr ''threads'')"
  using modify_dask_config_last_write_wins
      [of "[''b'' \<mapsto> PInt 3]" default_yaml_name False
          "[''a'' \<mapsto> PInt 1, ''b'' \<mapsto> PInt 2]" default_yaml_name False
          wrapper_local world1 "''b''"]
    modify_dask_config_last_write_wins
      [of "[''b'' \<mapsto> PInt 3]" default_yaml_name False
          "[''a'' \<mapsto> PInt 1, ''b'' \<mapsto> PInt 2]" default_yaml_name False
          wrapper_local world1 "''a''"]
    modify_dask_config_last_write_wins
      [of "[''b'' \<mapsto> PInt 3]" default_yaml_name False
          "[''a'' \<mapsto> PInt 1, ''b'' \<mapsto> PInt 2]" default_yaml_name False
          wrapper_local world1 "''scheduler''"]
  by (simp add: world1_def world0_def)

text \<open>
  C6. Calling \<open>modify_dask_config\<close> twice in succession with the same arguments gives
  the outcome of calling it once: the same configuration, the same file system (so the
  same content at the same \<open>yaml_path\<close>), and the same \<open>yaml_path\<close> and \<open>persist_yaml\<close>
  attributes. When the first call raises, the second is not reached.
\<close>

theorem modify_dask_config_idempotent:
  "and_then (modify_dask_config options yaml_name persist st)
     (\<lambda>r st1. modify_dask_config options yaml_name persist st1)
   = modify_dask_config options yaml_name persist st"
  by (cases st)
    (auto simp: modify_dask_config_def config_set_def open_w_yaml_dump_def Let_def
      map_add_twice split: option.splits node.splits outcome.splits)


theorem modify_dask_config_idempotent_witness:
  "and_then (modify_dask_config [''a'' \<mapsto> PInt 1] default_yaml_name False
               (wrapper_local, world0))
     (\<lambda>r st1. modify_dask_config [''a'' \<mapsto> PInt 1] default_yaml_name False st1)
   = Returns ()
       (wrapper_local,
        world0\<lparr>dask_config := (dask_config world0)(''a'' \<mapsto> PInt 1),
               fs := (fs world0)
                       (yaml0 \<mapsto> File ((dask_config world0)(''a'' \<mapsto> PInt 1)))\<rparr>)"
proof -
  have once: "modify_dask_config [''a'' \<mapsto> PInt 1] default_yaml_name False
                (wrapper_local, world0)
     = Returns ()
       (wrapper_local,
        world0\<lparr>dask_config := (dask_config world0)(''a'' \<mapsto> PInt 1),
               fs := (fs world0)
                       (yaml0 \<mapsto> File ((dask_config world0)(''a'' \<mapsto> PInt 1)))\<rparr>)"
    by (simp add: modify_dask_config_def config_set_def open_w_yaml_dump_def
        default_yaml_name_def Let_def wrapper_local_def world0_def yaml0_def)
  from modify_dask_config_idempotent
      [of "[''a'' \<mapsto> PInt 1]" default_yaml_name False "(wrapper_local, world0)"] once
  show ?thesis by simp
qed

section \<open>Properties of the constructors\<close>

lemma modify_dask_config_Returns:
  assumes "modify_dask_config options yaml_name persist (self, w) = Returns r (self', w')"
  shows "self' = self\<lparr>yaml_path := Some (home w @ ''/.config/dask/'' @ yaml_name),
                       persist_yaml := Some persist\<rparr>"
    and "home w' = home w" and "trace w' = trace w"
  using assms
  by (auto simp: modify_dask_config_def config_set_def open_w_yaml_dump_def Let_def
      split: option.splits node.splits outcome.splits if_splits)

lemma adapt_cluster_Returns:
  assumes "adapt_cluster (Some mn) (Some mx) (self, w) = Returns r (self', w')"
  shows "self' = self\<lparr>min_workers := mn, max_workers := mx,
                       adapt := Some \<lparr>minimum_jobs = mn, maximum_jobs = mx,
                                      interval = ''10s'', wait_count = 6\<rparr>\<rparr>"
    and "w' = log_event (ClusterAdapt mn mx ''10s'' 6) w"
  using assms
  by (auto simp: adapt_cluster_def Let_def split: option.splits if_splits)

lemma custom_SLURMCluster_Returns:
  assumes "custom_SLURMCluster cores processes memory walltime prologue kwargs w
             = Returns cl w'"
  shows "new_spec_options cl ''memory'' = Some (PStr memory)"
    and "new_spec_options cl ''job_script_prologue'' = Some (PList (map PStr prologue))"
    and "w' = log_event (SLURMClusterCall (new_spec_options cl)) w"
  using assms
  by (auto simp: custom_SLURMCluster_def Let_def split: if_splits)

lemma log_directory_default_Returns:
  assumes "log_directory_default kwargs w = Returns kwargs' w'"
  shows "trace w' = trace w" and "home w' = home w"
  using assms
  by (auto simp: log_directory_default_def mkdir_exist_ok_def Let_def
      split: if_splits option.splits node.splits outcome.splits)

lemma Client_Returns:
  assumes "Client cl w = Returns c w'"
  shows "w' = w"
  using assms by (auto simp: Client_def split: if_splits)

lemma LocalCluster_Returns:
  assumes "LocalCluster kwargs w = Returns cl w'"
  shows "w' = w"
  using assms by (auto simp: LocalCluster_def split: if_splits)

lemma slurm_cluster_init_Returns:
  assumes "slurm_cluster_init n processes threads mn mx walltime config kwargs w
             = Returns self w'"
  obtains USER self0 w1 kwargs1 kwargs2 w2 cl w3 c w4 where
    "modify_dask_config
       ([''temporary-directory'' \<mapsto> PStr (''/local/workdir/temp/'' @ USER @ ''/''),
         ''distributed.comm.timeouts.connect'' \<mapsto> PStr ''180s'',
         ''distributed.comm.timeouts.tcp'' \<mapsto> PStr ''360s''] ++ config)
       default_yaml_name False (cluster_init, w) = Returns () (self0, w1)"
    "log_directory_default kwargs1 w1 = Returns kwargs2 w2"
    "custom_SLURMCluster (case threads of None \<Rightarrow> n | Some t \<Rightarrow> t) processes
       (str_int (15 * n) @ ''GB'') walltime (job_script_prologue (2 * n)) kwargs2 w2
       = Returns cl w3"
    "Client cl w3 = Returns c w4"
    "adapt_cluster (Some mn) (Some mx)
       (set_client (Some c) (set_cluster (Some cl)
          \<lparr>client = client self0, cluster = cluster self0,
           yaml_path = yaml_path self0, persist_yaml = persist_yaml self0,
           adapt = None, ncpus = n, min_workers = mn, max_workers = mx\<rparr>), w4)
       = Returns () (self, w')"
  using assms unfolding slurm_cluster_init_def Let_def
  by (auto split: option.splits outcome.splits prod.splits)



lemma str_int_60: "str_int 60 = ''60''"
  by (simp add: str_int_def str_nat.simps digit_char_def)

lemma str_int_8: "str_int 8 = ''8''"
  by (simp add: str_int_def str_nat.simps digit_char_def)

lemma str_int_4242: "str_int 4242 = ''4242''"
  by (simp add: str_int_def str_nat.simps digit_char_def)

lemma slurm_cluster_constructed:
  "slurm_cluster_init 4 1 None 1 4 ''3:59'' Map.empty Map.empty world0
     = Returns slurm0 world_slurm"
  by (simp add: slurm_cluster_init_def modify_dask_config_def config_set_def
      open_w_yaml_dump_def log_directory_default_def mkdir_exist_ok_def
      custom_SLURMCluster_def Client_def adapt_cluster_def set_client_def set_cluster_def
      job_script_prologue_def log_event_def cluster_init_def default_yaml_name_def Let_def
      str_int_60 str_int_8 str_int_4242
      slurm0_def cluster0_def world_slurm_def slurm_config_def world0_def yaml0_def)









text \<open>
  C7. When the SLURM constructor returns a wrapper for \<open>n\<close> CPUs per worker, the pool
  was constructed with the memory request \<open>str(15 * n) + 'GB'\<close> and with a prologue of
  five statements \<open>export VAR=\<close>\<open>str(2 * n)\<close>, one for each of the five thread-count
  variables, and the option template of the wrapper's pool is the keyword dictionary of
  that construction.
\<close>

theorem slurm_cluster_init_memory_and_prologue:
  assumes "slurm_cluster_init n processes threads mn mx walltime config kwargs w
             = Returns self w'"
  shows "\<exists>c. cluster self = Some c
          \<and> trace w' = trace w @ [SLURMClusterCall (new_spec_options c),
                                    ClusterAdapt mn mx ''10s'' 6]
          \<and> new_spec_options c ''memory'' = Some (PStr (str_int (15 * n) @ ''GB''))
          \<and> new_spec_options c ''job_script_prologue'' =
              Some (PList (map (\<lambda>var. PStr (''export '' @ var @ ''='' @ str_int (2 * n)))
                             [''MKL_NUM_THREADS'', ''NUM_MKL_THREADS'',
                              ''OPENBLAS_NUM_THREADS'', ''OPENMP_NUM_THREADS'',
                              ''OMP_NUM_THREADS'']))"
proof -
  from assms obtain USER self0 w1 kwargs1 kwargs2 w2 cl w3 c w4 where
    m: "modify_dask_config
       ([''temporary-directory'' \<mapsto> PStr (''/local/workdir/temp/'' @ USER @ ''/''),
         ''distributed.comm.timeouts.connect'' \<mapsto> PStr ''180s'',
         ''distributed.comm.timeouts.tcp'' \<mapsto> PStr ''360s''] ++ config)
       default_yaml_name False (cluster_init, w) = Returns () (self0, w1)" and
    l: "log_directory_default kwargs1 w1 = Returns kwargs2 w2" and
    s: "custom_SLURMCluster (case threads of None \<Rightarrow> n | Some t \<Rightarrow> t) processes
       (str_int (15 * n) @ ''GB'') walltime (job_script_prologue (2 * n)) kwargs2 w2
       = Returns cl w3" and
    k: "Client cl w3 = Returns c w4" and
    a: "adapt_cluster (Some mn) (Some mx)
       (set_client (Some c) (set_cluster (Some cl)
          \<lparr>client = client self0, cluster = cluster self0,
           yaml_path = yaml_path self0, persist_yaml = persist_yaml self0,
           adapt = None, ncpus = n, min_workers = mn, max_workers = mx\<rparr>), w4)
       = Returns () (self, w')"
    by (rule slurm_cluster_init_Returns)
  have cl: "cluster self = Some cl"
    using adapt_cluster_Returns(1) [OF a] by (simp add: set_client_def set_cluster_def)
  have tr: "trace w' = trace w @ [SLURMClusterCall (new_spec_options cl),
                                   ClusterAdapt mn mx ''10s'' 6]"
    using modify_dask_config_Returns(3) [OF m] log_directory_default_Returns(1) [OF l]
      custom_SLURMCluster_Returns(3) [OF s] Client_Returns [OF k]
      adapt_cluster_Returns(2) [OF a]
    by simp
  have mem: "new_spec_options cl ''memory'' = Some (PStr (str_int (15 * n) @ ''GB''))"
    using custom_SLURMCluster_Returns(1) [OF s] .
  have pro: "new_spec_options cl ''job_script_prologue'' =
              Some (PList (map (\<lambda>var. PStr (''export '' @ var @ ''='' @ str_int (2 * n)))
                             [''MKL_NUM_THREADS'', ''NUM_MKL_THREADS'',
                              ''OPENBLAS_NUM_THREADS'', ''OPENMP_NUM_THREADS'',
                              ''OMP_NUM_THREADS'']))"
    using custom_SLURMCluster_Returns(2) [OF s] by (simp add: job_script_prologue_def)
  from cl tr mem pro show ?thesis by blast
qed

theorem slurm_cluster_init_memory_and_prologue_witness:
  "slurm_cluster_init 4 1 None 1 4 ''3:59'' Map.empty Map.empty world0
     = Returns slurm0 world_slurm
   \<and> cluster slurm0 = Some cluster0
   \<and> new_spec_options cluster0 ''memory'' = Some (PStr ''60GB'')
   \<and> new_spec_options cluster0 ''job_script_prologue'' =
       Some (PList [PStr ''export MKL_NUM_THREADS=8'',
                    PStr ''export NUM_MKL_THREADS=8'',
                    PStr ''export OPENBLAS_NUM_THREADS=8'',
                    PStr ''export OPENMP_NUM_THREADS=8'',
                    PStr ''export OMP_NUM_THREADS=8''])"
proof -
  have c: "cluster slurm0 = Some cluster0"
    by (simp add: slurm0_def)
  from slurm_cluster_init_memory_and_prologue [OF slurm_cluster_constructed] c
    slurm_cluster_constructed
  show ?thesis by (simp add: str_int_60 str_int_8)
qed








section \<open>Properties of the SLURM wrapper\<close>

lemma if_upd_fold: "(\<lambda>a. if a = k then Some v else m a) = m(k \<mapsto> v)"
  by (rule ext) simp

lemma set_options_Returns:
  "cluster self = Some c \<Longrightarrow>
     set_options kvs (self, w) =
       Returns ()
         (self\<lparr>cluster := Some (c\<lparr>new_spec_options :=
                    overridden kvs (new_spec_options c)\<rparr>)\<rparr>,
          w\<lparr>trace := trace w @ map (\<lambda>(k, v). SetOption k v) kvs\<rparr>)"
proof (induction kvs arbitrary: self c w)
  case Nil
  then have "self\<lparr>cluster := Some c\<rparr> = self"
    by (metis wrapper.surjective wrapper.update_convs(2))
  then show ?case by simp
next
  case (Cons kv kvs)
  obtain k v where kv: "kv = (k, v)" by (cases kv)
  let ?c = "c\<lparr>new_spec_options := (new_spec_options c)(k \<mapsto> v)\<rparr>"
  have "cluster (self\<lparr>cluster := Some ?c\<rparr>) = Some ?c" by simp
  from Cons.IH [OF this, of "log_event (SetOption k v) w"] Cons.prems kv
  show ?case by (simp add: log_event_def if_upd_fold)
qed

lemma overridden_other:
  "k \<notin> fst ` set kvs \<Longrightarrow> overridden kvs m k = m k"
  by (induction kvs m rule: overridden.induct) auto

lemma overridden_member:
  "distinct (map fst kvs) \<Longrightarrow> (k, v) \<in> set kvs \<Longrightarrow> overridden kvs m k = Some v"
proof (induction kvs m rule: overridden.induct)
  case (1 m)
  then show ?case by simp
next
  case (2 k' v' kvs m)
  show ?case
  proof (cases "(k', v') = (k, v)")
    case True
    with "2.prems" have "k \<notin> fst ` set kvs" by auto
    then have "overridden kvs (m(k \<mapsto> v)) k = (m(k \<mapsto> v)) k"
      by (rule overridden_other)
    with True show ?thesis by simp
  next
    case False
    with "2.prems" have "distinct (map fst kvs)" and "(k, v) \<in> set kvs"
      by auto
    then have "overridden kvs (m(k' \<mapsto> v')) k = Some v"
      by (rule "2.IH")
    then show ?thesis by simp
  qed
qed

text \<open>
  C8. On a SLURM wrapper with a pool, where the calls on the pool succeed,
  \<open>change_worker_attributes\<close> returns after taking these steps in this order: scale the
  pool to 0, write each keyword override into the option template (in the order of the
  keyword dictionary, whose keys are distinct), install the adaptive policy with the
  given bounds, an interval of 10 seconds and a wait count of 6. Afterwards the stored
  \<open>min_workers\<close> and \<open>max_workers\<close> are the given bounds, the policy held in \<open>adapt\<close> has
  these bounds, the template maps every overridden key to its override and every other
  key to its former value.
\<close>

theorem change_worker_attributes_effect:
  assumes "cluster self = Some c" and "scale_ok w" and "adapt_ok w"
    and "distinct (map fst kwargs)"
  shows "\<exists>self' w' c'.
           change_worker_attributes mn mx kwargs (self, w) = Returns () (self', w')
         \<and> trace w' = trace w @ [ClusterScale 0] @ map (\<lambda>(k, v). SetOption k v) kwargs
                                @ [ClusterAdapt mn mx ''10s'' 6]
         \<and> min_workers self' = mn \<and> max_workers self' = mx
         \<and> adapt self' = Some \<lparr>minimum_jobs = mn, maximum_jobs = mx,
                                interval = ''10s'', wait_count = 6\<rparr>
         \<and> cluster self' = Some c'
         \<and> (\<forall>(k, v) \<in> set kwargs. new_spec_options c' k = Some v)
         \<and> (\<forall>k. k \<notin> fst ` set kwargs \<longrightarrow> new_spec_options c' k = new_spec_options c k)"
proof -
  let ?c' = "c\<lparr>new_spec_options := overridden kwargs (new_spec_options c)\<rparr>"
  let ?w1 = "log_event (ClusterScale 0) w"
  let ?w2 = "?w1\<lparr>trace := trace ?w1 @ map (\<lambda>(k, v). SetOption k v) kwargs\<rparr>"
  let ?self2 = "self\<lparr>cluster := Some ?c'\<rparr>"
  let ?self' = "?self2\<lparr>min_workers := mn, max_workers := mx,
                        adapt := Some \<lparr>minimum_jobs = mn, maximum_jobs = mx,
                                       interval = ''10s'', wait_count = 6\<rparr>\<rparr>"
  let ?w' = "log_event (ClusterAdapt mn mx ''10s'' 6) ?w2"
  have 1: "cluster_scale 0 (self, w) = Returns () (self, ?w1)"
    using assms(1,2) by (simp add: cluster_scale_def)
  have 2: "set_options kwargs (self, ?w1) = Returns () (?self2, ?w2)"
    using assms(1) by (rule set_options_Returns)
  have 3: "adapt_cluster (Some mn) (Some mx) (?self2, ?w2) = Returns () (?self', ?w')"
    using assms(3) by (simp add: adapt_cluster_def log_event_def Let_def)
  have run: "change_worker_attributes mn mx kwargs (self, w) = Returns () (?self', ?w')"
    unfolding change_worker_attributes_def by (simp only: 1 2 3 and_then_Returns)
  have tr: "trace ?w' = trace w @ [ClusterScale 0] @ map (\<lambda>(k, v). SetOption k v) kwargs
                                @ [ClusterAdapt mn mx ''10s'' 6]"
    by (simp add: log_event_def)
  have ov: "\<forall>(k, v) \<in> set kwargs. new_spec_options ?c' k = Some v"
    using assms(4) by (auto simp: overridden_member)
  have ot: "\<forall>k. k \<notin> fst ` set kwargs \<longrightarrow> new_spec_options ?c' k = new_spec_options c k"
    by (simp add: overridden_other)
  have "change_worker_attributes mn mx kwargs (self, w) = Returns () (?self', ?w')
         \<and> trace ?w' = trace w @ [ClusterScale 0] @ map (\<lambda>(k, v). SetOption k v) kwargs
                                @ [ClusterAdapt mn mx ''10s'' 6]
         \<and> min_workers ?self' = mn \<and> max_workers ?self' = mx
         \<and> adapt ?self' = Some \<lparr>minimum_jobs = mn, maximum_jobs = mx,
                                interval = ''10s'', wait_count = 6\<rparr>
         \<and> cluster ?self' = Some ?c'
         \<and> (\<forall>(k, v) \<in> set kwargs. new_spec_options ?c' k = Some v)
         \<and> (\<forall>k. k \<notin> fst ` set kwargs \<longrightarrow> new_spec_options ?c' k = new_spec_options c k)"
    using run tr ov ot by simp
  then show ?thesis by blast
qed

theorem change_worker_attributes_effect_witness:
  "cluster slurm0 = Some cluster0
   \<and> scale_ok world_slurm \<and> adapt_ok world_slurm
   \<and> distinct (map fst [(''memory'', PStr ''30GB'')])
   \<and> min_workers (fst (final (change_worker_attributes 2 5 [(''memory'', PStr ''30GB'')]
                                 (slurm0, world_slurm)))) = 2
   \<and> max_workers (fst (final (change_worker_attributes 2 5 [(''memory'', PStr ''30GB'')]
                                 (slurm0, world_slurm)))) = 5
   \<and> map_option (\<lambda>c. new_spec_options c ''memory'')
        (cluster (fst (final (change_worker_attributes 2 5 [(''memory'', PStr ''30GB'')]
                                (slurm0, world_slurm)))))
       = Some (Some (PStr ''30GB''))
   \<and> trace (snd (final (change_worker_attributes 2 5 [(''memory'', PStr ''30GB'')]
                           (slurm0, world_slurm))))
       = trace world_slurm @
           [ClusterScale 0, SetOption ''memory'' (PStr ''30GB''), ClusterAdapt 2 5 ''10s'' 6]"
proof -
  have a: "cluster slurm0 = Some cluster0"
    by (simp add: slurm0_def)
  have b: "scale_ok world_slurm" and c: "adapt_ok world_slurm"
    by (simp_all add: world_slurm_def world0_def)
  have d: "distinct (map fst [(''memory'', PStr ''30GB'')])"
    by simp
  from change_worker_attributes_effect [OF a b c d, of 2 5] obtain self' w' c' where
    r: "change_worker_attributes 2 5 [(''memory'', PStr ''30GB'')] (slurm0, world_slurm)
          = Returns () (self', w')" and
    t: "trace w' = trace world_slurm @ [ClusterScale 0]
          @ map (\<lambda>(k, v). SetOption k v) [(''memory'', PStr ''30GB'')]
          @ [ClusterAdapt 2 5 ''10s'' 6]" and
    m: "min_workers self' = 2" "max_workers self' = 5" and
    cl: "cluster self' = Some c'" and
    ov: "\<forall>(k, v) \<in> set [(''memory'', PStr ''30GB'')]. new_spec_options c' k = Some v"
    by blast
  from ov have "new_spec_options c' ''memory'' = Some (PStr ''30GB'')"
    by simp
  with r t m cl a b c d show ?thesis by simp
qed

end
